theory Spec2Isabelle
  imports Complex_Main "HOL-Library.Word" "HOL-Library.Multiset"
begin

section \<open>Numbers\<close>

text \<open>
  The program computes with NumPy \<open>float64\<close> values. A value is modelled by the real
  number it stands for, and the functions of the program are given at two levels.
  At the first, rounding is left out: \<open>calculate_gini\<close>, \<open>calculate_pv50\<close> and the
  metrics record give the exact value of the expression the code evaluates. At the
  second, \<open>calculate_gini_f64\<close> and \<open>calculate_pv50_f64\<close> round after every operation
  and give the double the program returns. At both levels the division is NumPy's:
  it does not raise on a zero denominator, it returns \<open>nan\<close> (for \<open>0 / 0\<close>) or an
  infinity (the sign of which is not tracked here).
\<close>

datatype float64 = Finite real | Infinite | NaN

definition np_divide :: "real \<Rightarrow> real \<Rightarrow> float64" where
  "np_divide x y = (if y \<noteq> 0 then Finite (x / y) else if x = 0 then NaN else Infinite)"

definition np_scale :: "float64 \<Rightarrow> real \<Rightarrow> float64" where
  \<comment> \<open>\<open>q * c\<close> for a positive constant \<open>c\<close>: \<open>nan\<close> and the infinities are kept\<close>
  "np_scale q c = (case q of Finite v \<Rightarrow> Finite (v * c) | Infinite \<Rightarrow> Infinite | NaN \<Rightarrow> NaN)"

section \<open>Distribution metrics: \<open>calculate_gini\<close> and \<open>calculate_pv50\<close>\<close>

text \<open>
  \<^verbatim>\<open>
  def calculate_gini(areas):
      sorted_areas = np.sort(areas)
      n = len(areas)
      index = np.arange(1, n + 1)
      return (np.sum((2 * index - n - 1) * sorted_areas)) / (n * np.sum(sorted_areas))
  \<close>
  \<open>index\<close> is the integer array \<open>1, ..., n\<close>; the product with \<open>sorted_areas\<close> is
  elementwise on two arrays of the same length.
\<close>

definition calculate_gini :: "real list \<Rightarrow> float64" where
  "calculate_gini areas =
     (let sorted_areas = sort areas;
          n = int (length areas);
          index = [1..n]
      in np_divide
           (sum_list (map2 (\<lambda>i a. real_of_int (2 * i - n - 1) * a) index sorted_areas))
           (real_of_int n * sum_list sorted_areas))"

text \<open>
  \<^verbatim>\<open>
  def calculate_pv50(areas):
      sorted_areas = np.sort(areas)
      half_n = len(sorted_areas) // 2
      sum_smallest_50 = np.sum(sorted_areas[:half_n])
      total_sum = np.sum(sorted_areas)
      return (sum_smallest_50 / total_sum) * 100
  \<close>
\<close>

definition calculate_pv50 :: "real list \<Rightarrow> float64" where
  "calculate_pv50 areas =
     (let sorted_areas = sort areas;
          half_n = length sorted_areas div 2;
          sum_smallest_50 = sum_list (take half_n sorted_areas);
          total_sum = sum_list sorted_areas
      in np_scale (np_divide sum_smallest_50 total_sum) 100)"

subsection \<open>The formulas as the specification words them\<close>

text \<open>
  The specification's Gini formula: with \<open>a\<^sub>1, ..., a\<^sub>n\<close> the areas in ascending
  order, the quotient of \<open>\<Sum>i=1..n. (2 i - n - 1) a\<^sub>i\<close> by \<open>n \<Sum>i=1..n. a\<^sub>i\<close>.
\<close>

definition gini_formula :: "real list \<Rightarrow> float64" where
  "gini_formula areas =
     (let a = (\<lambda>i. sort areas ! (i - 1)); n = length areas
      in np_divide (\<Sum>i = 1..n. (2 * real i - real n - 1) * a i)
                   (real n * (\<Sum>i = 1..n. a i)))"

text \<open>
  The specification's PV50: 100 times the sum of the \<open>\<lfloor>n/2\<rfloor>\<close> smallest areas divided
  by the sum of all areas.
\<close>

definition pv50_formula :: "real list \<Rightarrow> float64" where
  "pv50_formula areas =
     (let a = (\<lambda>i. sort areas ! (i - 1)); n = length areas; half_n = n div 2
      in np_scale (np_divide (\<Sum>i = 1..half_n. a i) (\<Sum>i = 1..n. a i)) 100)"

section \<open>The float64 results\<close>

text \<open>
  The double the program returns: every arithmetic operation on \<open>float64\<close> values is
  followed by IEEE rounding to the nearest value with a 53-bit significand, ties to
  the even significand. The exponent range is not bounded here (no overflow to an
  infinity, no subnormal numbers). \<open>bit_length\<close> is the number of binary digits of a
  natural number, \<open>exponent x\<close> the \<open>e\<close> with \<open>2\<^sup>e \<le> x < 2\<^sup>e\<^sup>+\<^sup>1\<close> for \<open>x > 0\<close>.
\<close>

fun bit_length :: "nat \<Rightarrow> nat" where
  "bit_length n = (if n = 0 then 0 else Suc (bit_length (n div 2)))"

definition pow2 :: "int \<Rightarrow> real" where
  "pow2 k = (if 0 \<le> k then 2 ^ nat k else 1 / 2 ^ nat (- k))"

definition exponent :: "real \<Rightarrow> int" where
  "exponent x =
     (if 1 \<le> x then int (bit_length (nat \<lfloor>x\<rfloor>)) - 1
      else (let k = int (bit_length (nat \<lfloor>1 / x\<rfloor>)) - 1
            in if x * pow2 k = 1 then - k else - k - 1))"

definition round_half_even :: "real \<Rightarrow> int" where
  "round_half_even m =
     (let f = \<lfloor>m\<rfloor>; d = m - of_int f
      in if d < 1 / 2 then f else if 1 / 2 < d then f + 1 else if even f then f else f + 1)"

definition fl :: "real \<Rightarrow> real" where
  "fl x =
     (if x = 0 then 0
      else (let e = exponent \<bar>x\<bar>;
                m = round_half_even (\<bar>x\<bar> * pow2 (52 - e))
            in sgn x * (of_int m * pow2 (e - 52))))"

text \<open>
  \<open>np.sum\<close> of a contiguous \<open>float64\<close> array is NumPy's pairwise summation: fewer
  than 8 elements are added from left to right; up to 128 elements are added into 8
  accumulators, the accumulators are added as a balanced tree and the last \<open>n mod 8\<close>
  elements are added to the result one by one; a longer array is split in two at a
  multiple of 8.
\<close>

definition seq_sum :: "real \<Rightarrow> real list \<Rightarrow> real" where
  "seq_sum res a = foldl (\<lambda>r x. fl (r + x)) res a"

function acc8 :: "real list \<Rightarrow> real list \<Rightarrow> real list \<times> real list" where
  "acc8 r a =
     (if length a < 8 then (r, a)
      else acc8 (map2 (\<lambda>x y. fl (x + y)) r (take 8 a)) (drop 8 a))"
  by pat_completeness auto
termination
  by (relation "measure (\<lambda>(r, a). length a)") auto

function pairwise_sum :: "real list \<Rightarrow> real" where
  "pairwise_sum a =
     (if length a < 8 then seq_sum 0 a
      else if length a \<le> 128 then
        (case acc8 (take 8 a) (drop 8 a) of
           (r, rest) \<Rightarrow>
             seq_sum (fl (fl (fl (r ! 0 + r ! 1) + fl (r ! 2 + r ! 3))
                          + fl (fl (r ! 4 + r ! 5) + fl (r ! 6 + r ! 7)))) rest)
      else fl (pairwise_sum (take (length a div 2 - length a div 2 mod 8) a)
               + pairwise_sum (drop (length a div 2 - length a div 2 mod 8) a)))"
  by pat_completeness auto
termination
  by (relation "measure length") auto

definition np_sum :: "real list \<Rightarrow> real" where
  "np_sum a = fl (0 + pairwise_sum a)"

definition np_divide_f64 :: "real \<Rightarrow> real \<Rightarrow> float64" where
  "np_divide_f64 x y =
     (if y \<noteq> 0 then Finite (fl (x / y)) else if x = 0 then NaN else Infinite)"

definition np_scale_f64 :: "float64 \<Rightarrow> real \<Rightarrow> float64" where
  "np_scale_f64 q c =
     (case q of Finite v \<Rightarrow> Finite (fl (v * c)) | Infinite \<Rightarrow> Infinite | NaN \<Rightarrow> NaN)"

text \<open>
  \<open>calculate_gini\<close> and \<open>calculate_pv50\<close> once more, line by line, with the rounding
  of every operation. The integers \<open>2 * index - n - 1\<close> and \<open>n\<close> are converted to
  \<open>float64\<close> without loss. The areas given are \<open>float64\<close> values.
\<close>

definition calculate_gini_f64 :: "real list \<Rightarrow> float64" where
  "calculate_gini_f64 areas =
     (let sorted_areas = sort areas;
          n = int (length areas);
          index = [1..n]
      in np_divide_f64
           (np_sum (map2 (\<lambda>i a. fl (real_of_int (2 * i - n - 1) * a)) index sorted_areas))
           (fl (real_of_int n * np_sum sorted_areas)))"

definition calculate_pv50_f64 :: "real list \<Rightarrow> float64" where
  "calculate_pv50_f64 areas =
     (let sorted_areas = sort areas;
          half_n = length sorted_areas div 2;
          sum_smallest_50 = np_sum (take half_n sorted_areas);
          total_sum = np_sum sorted_areas
      in np_scale_f64 (np_divide_f64 sum_smallest_50 total_sum) 100)"

declare bit_length.simps [simp del] acc8.simps [simp del] pairwise_sum.simps [simp del]

section \<open>Geometry projector\<close>

type_synonym point = "real \<times> real"

text \<open>
  The raster's affine transform, with the six coefficients named as the \<open>affine\<close>
  package names them. \<open>transform * (vx, vy)\<close> is
  \<open>(vx * sa + vy * sb + sc, vx * sd + vy * se + sf)\<close>. The detector's box
  coordinates are \<open>float32\<close> values; the rounding of the transformed coordinates is
  left out, here and in the areas computed from them.
\<close>

record affine =
  sa :: real
  sb :: real
  sc :: real
  sd :: real
  se :: real
  sf :: real

definition affine_mul :: "affine \<Rightarrow> point \<Rightarrow> point" where
  "affine_mul t p =
     (case p of (vx, vy) \<Rightarrow> (vx * sa t + vy * sb t + sc t, vx * sd t + vy * se t + sf t))"

text \<open>
  \<open>shapely.geometry.box(minx, miny, maxx, maxy)\<close> returns the polygon whose ring is
  \<open>(maxx, miny), (maxx, maxy), (minx, maxy), (minx, miny)\<close>; it takes its four
  arguments as they come and compares none of them. A polygon is modelled by the list
  of its vertices.
\<close>

definition box :: "real \<Rightarrow> real \<Rightarrow> real \<Rightarrow> real \<Rightarrow> point list" where
  "box minx miny maxx maxy = [(maxx, miny), (maxx, maxy), (minx, maxy), (minx, miny)]"

text \<open>The extent \<open>(minx, miny, maxx, maxy)\<close> of a polygon with at least one vertex.\<close>

definition bounds :: "point list \<Rightarrow> real \<times> real \<times> real \<times> real" where
  "bounds ps =
     (Min (set (map fst ps)), Min (set (map snd ps)),
      Max (set (map fst ps)), Max (set (map snd ps)))"

text \<open>
  One detection of the model: \<open>boxes[i]\<close>, \<open>classes[i]\<close> and \<open>confidences[i]\<close>, which
  the detector returns as three arrays of one length. The class is the integer that
  \<open>int(classes[i])\<close> yields.
\<close>

record detection =
  xyxy :: "real \<times> real \<times> real \<times> real"
  cls :: int
  conf :: real

text \<open>A row of the GeoDataFrame; \<open>gdf['area'] = ...\<close> adds the fourth column.\<close>

record row =
  class_id :: int
  confidence :: real
  geometry :: "point list"

record area_row = row +
  area :: real

text \<open>
  \<^verbatim>\<open>
  for i, b in enumerate(boxes):
      x1, y1, x2, y2 = b
      lon_min, lat_max = transform * (x1, y1)
      lon_max, lat_min = transform * (x2, y2)
      poly = box(lon_min, lat_min, lon_max, lat_max)
      polygons.append(poly)
      metadata.append({'class': int(classes[i]), 'confidence': float(confidences[i])})
  gdf = gpd.GeoDataFrame(metadata, geometry=polygons, crs=src.crs)
  \<close>
\<close>

definition project_box :: "affine \<Rightarrow> real \<times> real \<times> real \<times> real \<Rightarrow> point list" where
  "project_box transform b =
     (case b of (x1, y1, x2, y2) \<Rightarrow>
        (case affine_mul transform (x1, y1) of (lon_min, lat_max) \<Rightarrow>
           (case affine_mul transform (x2, y2) of (lon_max, lat_min) \<Rightarrow>
              box lon_min lat_min lon_max lat_max)))"

definition vectorize :: "affine \<Rightarrow> detection list \<Rightarrow> row list" where
  "vectorize transform boxes =
     map (\<lambda>dt. \<lparr>class_id = cls dt, confidence = conf dt,
                geometry = project_box transform (xyxy dt)\<rparr>) boxes"

section \<open>Area normalizer\<close>

text \<open>
  \<open>estimate_utm_crs\<close> and \<open>to_crs\<close> belong to GeoPandas. They are parameters of the
  model: the estimation takes the frame and returns a CRS or raises, the reprojection
  maps every vertex of every geometry by the coordinate operation of the chosen CRS.
  \<open>geometry.area\<close> is the planar area of the ring (the absolute value of the shoelace
  sum). The calls made to the library are recorded in the order the code makes them.
\<close>

datatype error = EstimateUtmCrsError

datatype call = EstimateUtmCrs | ToCrs | GeometryArea

definition polygon_area :: "point list \<Rightarrow> real" where
  "polygon_area ps =
     \<bar>sum_list (map2 (\<lambda>p q. fst p * snd q - fst q * snd p) ps (rotate1 ps))\<bar> / 2"

text \<open>
  \<^verbatim>\<open>
  estimated_utm = gdf.estimate_utm_crs()
  gdf = gdf.to_crs(estimated_utm)
  gdf['area'] = gdf.geometry.area
  gdf = gdf[gdf.geometry.area > 1]
  \<close>
\<close>

definition area_normalizer ::
  "(row list \<Rightarrow> error + 'crs) \<Rightarrow> ('crs \<Rightarrow> point \<Rightarrow> point) \<Rightarrow> row list
     \<Rightarrow> call list \<times> (error + area_row list)" where
  "area_normalizer estimate_utm_crs to_crs gdf =
     (case estimate_utm_crs gdf of
        Inl err \<Rightarrow> ([EstimateUtmCrs], Inl err)
      | Inr estimated_utm \<Rightarrow>
          (let gdf1 = map (\<lambda>r. r\<lparr>geometry := map (to_crs estimated_utm) (geometry r)\<rparr>) gdf;
               gdf2 = map (\<lambda>r. row.extend r \<lparr>area = polygon_area (geometry r)\<rparr>) gdf1;
               gdf3 = filter (\<lambda>r. polygon_area (geometry r) > 1) gdf2
           in ([EstimateUtmCrs, ToCrs, GeometryArea, GeometryArea], Inr gdf3)))"

section \<open>Coverage estimator\<close>

text \<open>
  \<open>img\<close> is what \<open>src.read([1, 2, 3])\<close> returns, moved to height \<times> width \<times> 3: an
  array of the raster's own sample type. The model covers the unsigned integer types
  (\<open>uint8\<close> for an 8-bit RGB orthophoto, \<open>uint16\<close>, ...): a sample is a word, and the
  sum of two arrays of one integer type is an array of that type, so \<open>+\<close> wraps.
  \<^verbatim>\<open>
  total_area_ha = (np.sum(np.where((img[:,:,0] + img[:,:,1] + img[:,:,2])>0,1,0))
                   * (args.gsd ** 2)) / 10000
  \<close>
\<close>

type_synonym 'a pixel = "'a word \<times> 'a word \<times> 'a word"

definition valid_pixel :: "'a::len pixel \<Rightarrow> bool" where
  "valid_pixel p = (case p of (band0, band1, band2) \<Rightarrow> band0 + band1 + band2 > 0)"

definition valid_count :: "'a::len pixel list list \<Rightarrow> nat" where
  "valid_count img =
     sum_list (map (\<lambda>line. sum_list (map (\<lambda>p. if valid_pixel p then 1 else 0) line)) img)"

definition coverage_estimator :: "'a::len pixel list list \<Rightarrow> real \<Rightarrow> real" where
  "coverage_estimator img gsd = (real (valid_count img) * gsd\<^sup>2) / 10000"

section \<open>Metrics record\<close>

text \<open>
  \<open>Series.std()\<close> of pandas: the standard deviation with \<open>ddof = 1\<close>, which is \<open>nan\<close>
  on fewer than two values.
\<close>

definition series_std :: "real list \<Rightarrow> float64" where
  "series_std xs =
     (let n = length xs; mean = sum_list xs / real n
      in if n < 2 then NaN
         else Finite (sqrt (sum_list (map (\<lambda>x. (x - mean)\<^sup>2) xs) / real (n - 1))))"

record metrics =
  total_detections :: nat
  total_area_ha :: real
  detections_per_ha :: float64
  desvio_padrao :: float64
  gini :: float64
  pv50 :: float64

text \<open>
  \<^verbatim>\<open>
  total_detections = len(gdf)
  total_detections_per_ha = total_detections / total_area_ha if total_area_ha > 0 else 0
  desvio_padrao = gdf['area'].std() if len(gdf) > 1 else 0
  metrics = {'total_detections': total_detections, 'total_area_ha': total_area_ha,
             'detections_per_ha': total_detections_per_ha, 'desvio_padrao': desvio_padrao,
             'gini': calculate_gini(gdf['area']), 'pv50': calculate_pv50(gdf['area'])}
  \<close>
  \<open>total_area_ha\<close> is a NumPy \<open>float64\<close>, so the quotient in the second line is
  NumPy's division, which would return an infinity or \<open>nan\<close> on a zero area; the
  condition in front of it decides whether it is evaluated.
\<close>

definition std_or_zero :: "real list \<Rightarrow> float64" where
  "std_or_zero areas = (if length areas > 1 then series_std areas else Finite 0)"

definition build_metrics :: "area_row list \<Rightarrow> real \<Rightarrow> metrics" where
  "build_metrics gdf area_ha =
     (let n = length gdf;
          per_ha = (if area_ha > 0 then np_divide (real n) area_ha else Finite 0)
      in \<lparr>total_detections = n,
          total_area_ha = area_ha,
          detections_per_ha = per_ha,
          desvio_padrao = std_or_zero (map area gdf),
          gini = calculate_gini (map area gdf),
          pv50 = calculate_pv50 (map area gdf)\<rparr>)"

text \<open>
  \<open>main\<close> from the detector's output to the metrics dictionary: vectorize, normalize,
  estimate the coverage, build the record. An error of the normalizer ends the run.
\<close>

definition main ::
  "(row list \<Rightarrow> error + 'crs) \<Rightarrow> ('crs \<Rightarrow> point \<Rightarrow> point) \<Rightarrow> affine \<Rightarrow> detection list
     \<Rightarrow> 'a::len pixel list list \<Rightarrow> real \<Rightarrow> error + (area_row list \<times> metrics)" where
  "main estimate_utm_crs to_crs transform boxes img gsd =
     (case snd (area_normalizer estimate_utm_crs to_crs (vectorize transform boxes)) of
        Inl err \<Rightarrow> Inl err
      | Inr gdf \<Rightarrow> Inr (gdf, build_metrics gdf (coverage_estimator img gsd)))"

section \<open>Auxiliary functions of the proofs\<close>

text \<open>
  \<open>wsum c k xs\<close> is the rank-weighted sum \<open>\<Sum>j. (2 (k + j) - c) xs\<^sub>j\<close> with the ranks starting
  at \<open>k\<close>; \<open>pair_gaps xs\<close> is the sum of \<open>xs\<^sub>j - xs\<^sub>i\<close> over all pairs \<open>i < j\<close>.
\<close>

fun wsum :: "int \<Rightarrow> int \<Rightarrow> real list \<Rightarrow> real" where
  "wsum c k [] = 0"
| "wsum c k (x # xs) = real_of_int (2 * k - c) * x + wsum c (k + 1) xs"

fun pair_gaps :: "real list \<Rightarrow> real" where
  "pair_gaps [] = 0"
| "pair_gaps (x # xs) = sum_list (map (\<lambda>y. y - x) xs) + pair_gaps xs"

section \<open>Collaborators and inputs of the examples\<close>

text \<open>
  A north-up transform (pixel rows grow downwards, \<open>y\<close> decreases) and one that keeps
  the sign of \<open>y\<close>; a CRS estimation that fails on the empty frame and one that always
  answers EPSG 32723; a reprojection that leaves the coordinates as they are (the frame
  is already in metres); two lists of detections.
\<close>

definition north_up :: affine where
  "north_up = \<lparr>sa = 1, sb = 0, sc = 0, sd = 0, se = - 1, sf = 0\<rparr>"

definition identity :: affine where
  "identity = \<lparr>sa = 1, sb = 0, sc = 0, sd = 0, se = 1, sf = 0\<rparr>"

definition failing_estimate :: "row list \<Rightarrow> error + nat" where
  "failing_estimate gdf = (case gdf of [] \<Rightarrow> Inl EstimateUtmCrsError | _ \<Rightarrow> Inr 32723)"

definition fixed_estimate :: "row list \<Rightarrow> error + nat" where
  "fixed_estimate gdf = Inr 32723"

definition keep_coordinates :: "nat \<Rightarrow> point \<Rightarrow> point" where
  "keep_coordinates crs p = p"

definition two_boxes :: "detection list" where
  "two_boxes = [\<lparr>xyxy = (0, 0, 2, 2), cls = 0, conf = 9 / 10\<rparr>,
                \<lparr>xyxy = (3, 3, 7 / 2, 7 / 2), cls = 1, conf = 3 / 5\<rparr>]"

definition three_boxes :: "detection list" where
  "three_boxes = [\<lparr>xyxy = (0, 0, 2, 1), cls = 0, conf = 9 / 10\<rparr>,
                  \<lparr>xyxy = (3, 3, 5, 5), cls = 0, conf = 4 / 5\<rparr>,
                  \<lparr>xyxy = (6, 6, 9, 8), cls = 0, conf = 3 / 5\<rparr>]"

definition one_white_pixel :: "8 pixel list list" where
  "one_white_pixel = [[(255, 255, 255), (0, 0, 0)]]"

section \<open>The rank-weighted sum\<close>

lemma map2_upto_wsum:
  "sum_list (map2 (\<lambda>i a. real_of_int (2 * i - c) * a) [k..k + int (length xs) - 1] xs)
     = wsum c k xs"
proof (induction xs arbitrary: k)
  case Nil
  then show ?case by simp
next
  case (Cons x xs)
  have "[k..k + int (length (x # xs)) - 1] = k # [k + 1..(k + 1) + int (length xs) - 1]"
    by (simp add: upto_rec1)
  then show ?case using Cons.IH [of "k + 1"] by simp
qed

lemma wsum_nth:
  "wsum c k xs = (\<Sum>i<length xs. real_of_int (2 * (k + int i) - c) * xs ! i)"
proof (induction xs arbitrary: k)
  case Nil
  then show ?case by simp
next
  case (Cons x xs)
  have "(\<Sum>i<Suc (length xs). real_of_int (2 * (k + int i) - c) * (x # xs) ! i)
      = real_of_int (2 * k - c) * x
        + (\<Sum>i<length xs. real_of_int (2 * (k + int (Suc i)) - c) * xs ! i)"
    by (subst sum.lessThan_Suc_shift) simp
  also have "(\<Sum>i<length xs. real_of_int (2 * (k + int (Suc i)) - c) * xs ! i)
      = (\<Sum>i<length xs. real_of_int (2 * ((k + 1) + int i) - c) * xs ! i)"
    by (simp add: algebra_simps)
  finally show ?case using Cons.IH [of "k + 1"] by simp
qed

lemma sum_list_nth_from_one: "sum_list xs = (\<Sum>i = 1..length xs. xs ! (i - 1))"
proof -
  have "sum_list xs = (\<Sum>i<length xs. xs ! i)"
    by (simp add: sum_list_sum_nth atLeast0LessThan)
  also have "\<dots> = (\<Sum>i<length xs. xs ! (Suc i - 1))" by simp
  also have "\<dots> = (\<Sum>i = 1..length xs. xs ! (i - 1))"
    by (rule sum_bounds_lt_plus1)
  finally show ?thesis .
qed

lemma wsum_from_one:
  "wsum (int (length xs) + 1) 1 xs
     = (\<Sum>i = 1..length xs. (2 * real i - real (length xs) - 1) * xs ! (i - 1))"
proof -
  have "wsum (int (length xs) + 1) 1 xs
      = (\<Sum>i<length xs. (2 * real (Suc i) - real (length xs) - 1) * xs ! (Suc i - 1))"
    by (simp add: wsum_nth algebra_simps)
  also have "\<dots> = (\<Sum>i = 1..length xs. (2 * real i - real (length xs) - 1) * xs ! (i - 1))"
    by (rule sum_bounds_lt_plus1)
  finally show ?thesis .
qed

lemma gini_numerator:
  "sum_list (map2 (\<lambda>i a. real_of_int (2 * i - int (length areas) - 1) * a)
       [1..int (length areas)] (sort areas))
     = wsum (int (length areas) + 1) 1 (sort areas)"
proof -
  have "sum_list (map2 (\<lambda>i a. real_of_int (2 * i - (int (length areas) + 1)) * a)
          [1..1 + int (length (sort areas)) - 1] (sort areas))
        = wsum (int (length areas) + 1) 1 (sort areas)"
    by (rule map2_upto_wsum)
  then show ?thesis by (simp add: diff_diff_eq)
qed

lemma calculate_gini_wsum:
  "calculate_gini areas =
     np_divide (wsum (int (length areas) + 1) 1 (sort areas))
               (real (length areas) * sum_list (sort areas))"
  unfolding calculate_gini_def Let_def gini_numerator by simp

section \<open>Evaluating the float64 results\<close>

lemma bit_length_0: "bit_length 0 = 0"
  by (simp add: bit_length.simps)

lemma bit_length_1: "bit_length (Suc 0) = Suc 0"
  by (subst bit_length.simps) (simp add: bit_length_0)

lemma bit_length_Bit0: "bit_length (numeral (Num.Bit0 n)) = Suc (bit_length (numeral n))"
  by (subst bit_length.simps) simp

lemma bit_length_Bit1: "bit_length (numeral (Num.Bit1 n)) = Suc (bit_length (numeral n))"
  by (subst bit_length.simps) simp

lemmas fl_eval = fl_def exponent_def round_half_even_def pow2_def Let_def
  bit_length_0 bit_length_1 bit_length_Bit0 bit_length_Bit1

lemma fl_0: "fl 0 = 0"
  by (simp add: fl_def)

lemma pairwise_sum_short: "length a < 8 \<Longrightarrow> pairwise_sum a = seq_sum 0 a"
  by (simp add: pairwise_sum.simps)

lemma np_divide_f64_nonzero: "y \<noteq> 0 \<Longrightarrow> np_divide_f64 x y = Finite (fl (x / y))"
  by (simp add: np_divide_f64_def)

lemma np_scale_f64_Finite: "np_scale_f64 (Finite v) c = Finite (fl (v * c))"
  by (simp add: np_scale_f64_def)

text \<open>The two doubles of the examples: 1.3 and 1.1.\<close>

lemma fl_13_10: "fl (13 / 10) = 5854679515581645 / 4503599627370496"
  by (simp add: fl_eval)

lemma fl_11_10: "fl (11 / 10) = 2476979795053773 / 2251799813685248"
  by (simp add: fl_eval)

lemma gini_f64_five_equal:
  "calculate_gini_f64 [a, a, a, a, a] =
     np_divide_f64
       (fl (0 + fl (fl (fl (fl (fl (0 + fl ((- 4) * a)) + fl ((- 2) * a)) + fl (0 * a))
                       + fl (2 * a)) + fl (4 * a))))
       (fl (5 * fl (0 + fl (fl (fl (fl (fl (0 + a) + a) + a) + a) + a))))"
  by (simp add: calculate_gini_f64_def np_sum_def pairwise_sum_short seq_sum_def upto_rec1)

lemma pv50_f64_six_equal:
  "calculate_pv50_f64 [a, a, a, a, a, a] =
     np_scale_f64
       (np_divide_f64
          (fl (0 + fl (fl (fl (0 + a) + a) + a)))
          (fl (0 + fl (fl (fl (fl (fl (fl (0 + a) + a) + a) + a) + a) + a))))
       100"
  by (simp add: calculate_pv50_f64_def np_sum_def pairwise_sum_short seq_sum_def)

lemma gini_f64_single:
  assumes "fl a = a" "a \<noteq> 0"
  shows "calculate_gini_f64 [a] = Finite 0"
  using assms
  by (simp add: calculate_gini_f64_def np_sum_def pairwise_sum_short seq_sum_def fl_0
      np_divide_f64_def)

lemma gini_f64_4444: "calculate_gini_f64 [4, 4, 4, 4] = Finite 0"
  by (simp add: calculate_gini_f64_def np_sum_def pairwise_sum_short seq_sum_def upto_rec1
      np_divide_f64_def fl_eval)

text \<open>The operations of \<open>calculate_gini_f64\<close> on five areas 1.3, one by one.\<close>

lemma gini_f64_step_0: "fl ((- 4) * (5854679515581645 / 4503599627370496)) = - (5854679515581645 / 1125899906842624)"
  by (simp add: fl_eval)

lemma gini_f64_step_1: "fl ((- 2) * (5854679515581645 / 4503599627370496)) = - (5854679515581645 / 2251799813685248)"
  by (simp add: fl_eval)

lemma gini_f64_step_2: "fl (0 * (5854679515581645 / 4503599627370496)) = 0"
  by (simp add: fl_eval)

lemma gini_f64_step_3: "fl (2 * (5854679515581645 / 4503599627370496)) = 5854679515581645 / 2251799813685248"
  by (simp add: fl_eval)

lemma gini_f64_step_4: "fl (4 * (5854679515581645 / 4503599627370496)) = 5854679515581645 / 1125899906842624"
  by (simp add: fl_eval)

lemma gini_f64_step_5: "fl (0 + (- (5854679515581645 / 1125899906842624))) = - (5854679515581645 / 1125899906842624)"
  by (simp add: fl_eval)

lemma gini_f64_step_6: "fl ((- (5854679515581645 / 1125899906842624)) + (- (5854679515581645 / 2251799813685248))) = - (2195504818343117 / 281474976710656)"
  by (simp add: fl_eval)

lemma gini_f64_step_7: "fl ((- (2195504818343117 / 281474976710656)) + 0) = - (2195504818343117 / 281474976710656)"
  by (simp add: fl_eval)

lemma gini_f64_step_8: "fl ((- (2195504818343117 / 281474976710656)) + (5854679515581645 / 2251799813685248)) = - (2927339757790823 / 562949953421312)"
  by (simp add: fl_eval)

lemma gini_f64_step_9: "fl ((- (2927339757790823 / 562949953421312)) + (5854679515581645 / 1125899906842624)) = - (1 / 1125899906842624)"
  by (simp add: fl_eval)

lemma gini_f64_step_10: "fl (0 + (- (1 / 1125899906842624))) = - (1 / 1125899906842624)"
  by (simp add: fl_eval)

lemma gini_f64_step_11: "fl (0 + (5854679515581645 / 4503599627370496)) = 5854679515581645 / 4503599627370496"
  by (simp add: fl_eval)

lemma gini_f64_step_12: "fl ((5854679515581645 / 4503599627370496) + (5854679515581645 / 4503599627370496)) = 5854679515581645 / 2251799813685248"
  by (simp add: fl_eval)

lemma gini_f64_step_13: "fl ((5854679515581645 / 2251799813685248) + (5854679515581645 / 4503599627370496)) = 2195504818343117 / 562949953421312"
  by (simp add: fl_eval)

lemma gini_f64_step_14: "fl ((2195504818343117 / 562949953421312) + (5854679515581645 / 4503599627370496)) = 5854679515581645 / 1125899906842624"
  by (simp add: fl_eval)

lemma gini_f64_step_15: "fl ((5854679515581645 / 1125899906842624) + (5854679515581645 / 4503599627370496)) = 13 / 2"
  by (simp add: fl_eval)

lemma gini_f64_step_16: "fl (0 + (13 / 2)) = 13 / 2"
  by (simp add: fl_eval)

lemma gini_f64_step_17: "fl (5 * (13 / 2)) = 65 / 2"
  by (simp add: fl_eval)

lemma gini_f64_step_18: "fl ((- (1 / 1125899906842624)) / (65 / 2)) = - (277144592453569 / 10141204801825835211973625643008)"
  by (simp add: fl_eval)

lemmas gini_f64_steps =
  gini_f64_step_0 gini_f64_step_1 gini_f64_step_2 gini_f64_step_3 gini_f64_step_4
  gini_f64_step_5 gini_f64_step_6 gini_f64_step_7 gini_f64_step_8 gini_f64_step_9
  gini_f64_step_10 gini_f64_step_11 gini_f64_step_12 gini_f64_step_13 gini_f64_step_14
  gini_f64_step_15 gini_f64_step_16 gini_f64_step_17 gini_f64_step_18

lemma gini_f64_five_13:
  "calculate_gini_f64 [5854679515581645 / 4503599627370496,
                        5854679515581645 / 4503599627370496,
                        5854679515581645 / 4503599627370496,
                        5854679515581645 / 4503599627370496,
                        5854679515581645 / 4503599627370496]
     = Finite (- (277144592453569 / 10141204801825835211973625643008))"
proof -
  have d: "(65 / 2 :: real) \<noteq> 0" by simp
  show ?thesis
    by (simp only: gini_f64_five_equal gini_f64_steps np_divide_f64_nonzero [OF d])
qed

text \<open>The operations of \<open>calculate_pv50_f64\<close> on six areas 1.1, one by one.\<close>

lemma pv50_f64_step_0: "fl (0 + (2476979795053773 / 2251799813685248)) = 2476979795053773 / 2251799813685248"
  by (simp add: fl_eval)

lemma pv50_f64_step_1: "fl ((2476979795053773 / 2251799813685248) + (2476979795053773 / 2251799813685248)) = 2476979795053773 / 1125899906842624"
  by (simp add: fl_eval)

lemma pv50_f64_step_2: "fl ((2476979795053773 / 1125899906842624) + (2476979795053773 / 2251799813685248)) = 7430939385161319 / 2251799813685248"
  by (simp add: fl_eval)

lemma pv50_f64_step_3: "fl (0 + (7430939385161319 / 2251799813685248)) = 7430939385161319 / 2251799813685248"
  by (simp add: fl_eval)

lemma pv50_f64_step_7: "fl ((7430939385161319 / 2251799813685248) + (2476979795053773 / 2251799813685248)) = 2476979795053773 / 562949953421312"
  by (simp add: fl_eval)

lemma pv50_f64_step_8: "fl ((2476979795053773 / 562949953421312) + (2476979795053773 / 2251799813685248)) = 11 / 2"
  by (simp add: fl_eval)

lemma pv50_f64_step_9: "fl ((11 / 2) + (2476979795053773 / 2251799813685248)) = 3715469692580659 / 562949953421312"
  by (simp add: fl_eval)

lemma pv50_f64_step_10: "fl (0 + (3715469692580659 / 562949953421312)) = 3715469692580659 / 562949953421312"
  by (simp add: fl_eval)

lemma pv50_f64_step_11: "fl ((7430939385161319 / 2251799813685248) / (3715469692580659 / 562949953421312)) = 4503599627370497 / 9007199254740992"
  by (simp add: fl_eval)

lemma pv50_f64_step_12: "fl ((4503599627370497 / 9007199254740992) * 100) = 3518437208883201 / 70368744177664"
  by (simp add: fl_eval)

lemmas pv50_f64_steps =
  pv50_f64_step_0 pv50_f64_step_1 pv50_f64_step_2 pv50_f64_step_3 pv50_f64_step_7
  pv50_f64_step_8 pv50_f64_step_9 pv50_f64_step_10 pv50_f64_step_11 pv50_f64_step_12

lemma pv50_f64_six_11:
  "calculate_pv50_f64 [2476979795053773 / 2251799813685248,
                        2476979795053773 / 2251799813685248,
                        2476979795053773 / 2251799813685248,
                        2476979795053773 / 2251799813685248,
                        2476979795053773 / 2251799813685248,
                        2476979795053773 / 2251799813685248]
     = Finite (3518437208883201 / 70368744177664)"
proof -
  have d: "(3715469692580659 / 562949953421312 :: real) \<noteq> 0" by simp
  show ?thesis
    by (simp only: pv50_f64_six_equal pv50_f64_steps np_divide_f64_nonzero [OF d]
        np_scale_f64_Finite)
qed

section \<open>Claims about the Gini coefficient\<close>

text \<open>
  Claim C1. For every non-empty array of areas, \<open>calculate_gini\<close> sorts the areas
  ascending into \<open>a\<^sub>1, ..., a\<^sub>n\<close> and returns exactly the quotient of
  \<open>\<Sum>i=1..n. (2 i - n - 1) a\<^sub>i\<close> by \<open>n \<Sum>i=1..n. a\<^sub>i\<close>, the discrete rank-weighted
  formula (a zero denominator gives on both sides the same \<open>nan\<close> or infinity).
\<close>

theorem gini_is_rank_weighted_formula:
  "areas \<noteq> [] \<Longrightarrow> calculate_gini areas = gini_formula areas"
proof -
  have n: "wsum (int (length areas) + 1) 1 (sort areas)
      = (\<Sum>i = 1..length areas. (2 * real i - real (length areas) - 1) * sort areas ! (i - 1))"
    using wsum_from_one [of "sort areas"] by simp
  have d: "sum_list (sort areas) = (\<Sum>i = 1..length areas. sort areas ! (i - 1))"
    using sum_list_nth_from_one [of "sort areas"] by simp
  show ?thesis
    unfolding calculate_gini_wsum gini_formula_def Let_def n d ..
qed

theorem gini_is_rank_weighted_formula_witness:
  "[3, 1, 2 :: real] \<noteq> [] \<and> calculate_gini [3, 1, 2] = gini_formula [3, 1, 2]
     \<and> gini_formula [3, 1, 2] = Finite (2 / 9)"
  using gini_is_rank_weighted_formula [of "[3, 1, 2]"]
  by (simp add: gini_formula_def np_divide_def numeral_eq_Suc)

lemma sum_list_sort: "sum_list (sort xs) = sum_list (xs :: real list)"
proof -
  have "sum_mset (mset (sort xs)) = sum_mset (mset xs)" by simp
  then show ?thesis by (simp only: sum_mset_sum_list)
qed

lemma sort_eq_Nil: "sort xs = [] \<longleftrightarrow> xs = []"
  by (metis length_sort length_0_conv)

lemma wsum_shift: "wsum (c + 1) (k + 1) xs = wsum c k xs + sum_list xs"
proof (induction xs arbitrary: k)
  case Nil
  then show ?case by simp
next
  case (Cons x xs)
  show ?case using Cons.IH [of "k + 1"] by (simp add: algebra_simps)
qed

lemma sum_list_gaps:
  "sum_list (map (\<lambda>y. y - x) xs) = sum_list xs - real (length xs) * (x :: real)"
  by (induction xs) (simp_all add: algebra_simps)

lemma sum_list_gaps_const:
  "(\<forall>y\<in>set xs. y = x) \<Longrightarrow> sum_list (map (\<lambda>y. y - x) xs) = (0 :: real)"
  by (induction xs) simp_all

text \<open>The numerator of the Gini formula is the sum of the gaps of all pairs.\<close>

lemma wsum_pair_gaps: "wsum (int (length xs) + 1) 1 xs = pair_gaps xs"
proof (induction xs)
  case Nil
  then show ?case by simp
next
  case (Cons x xs)
  have "wsum (int (length (x # xs)) + 1) 1 (x # xs)
      = - real (length xs) * x + wsum ((int (length xs) + 1) + 1) (1 + 1) xs"
    by (simp add: algebra_simps)
  also have "wsum ((int (length xs) + 1) + 1) (1 + 1) xs
      = wsum (int (length xs) + 1) 1 xs + sum_list xs"
    by (rule wsum_shift)
  finally show ?case
    by (simp add: Cons.IH sum_list_gaps)
qed

lemma pair_gaps_nonneg: "sorted xs \<Longrightarrow> 0 \<le> pair_gaps xs"
proof (induction xs)
  case Nil
  then show ?case by simp
next
  case (Cons x xs)
  then have "0 \<le> sum_list (map (\<lambda>y. y - x) xs)"
    by (intro sum_list_nonneg) auto
  with Cons show ?case by simp
qed

lemma pair_gaps_const: "(\<forall>y\<in>set xs. y = c) \<Longrightarrow> pair_gaps xs = 0"
proof (induction xs)
  case Nil
  then show ?case by simp
next
  case (Cons x xs)
  then have "sum_list (map (\<lambda>y. y - x) xs) = 0"
    by (intro sum_list_gaps_const) auto
  with Cons show ?case by simp
qed

lemma wsum_upper:
  "(\<forall>x\<in>set xs. 0 \<le> x) \<Longrightarrow> 2 * (k + int (length xs) - 1) - c \<le> N
     \<Longrightarrow> wsum c k xs \<le> real_of_int N * sum_list xs"
proof (induction xs arbitrary: k)
  case Nil
  then show ?case by simp
next
  case (Cons x xs)
  have x: "0 \<le> x" using Cons.prems(1) by simp
  have "2 * k - c \<le> N" using Cons.prems(2) by simp
  then have "real_of_int (2 * k - c) \<le> real_of_int N" by linarith
  then have a: "real_of_int (2 * k - c) * x \<le> real_of_int N * x"
    using x by (rule mult_right_mono)
  have b: "wsum c (k + 1) xs \<le> real_of_int N * sum_list xs"
    using Cons.prems by (intro Cons.IH) auto
  show ?case using a b by (simp add: algebra_simps)
qed

lemma gini_value:
  assumes "areas \<noteq> []" "0 < sum_list areas"
  shows "calculate_gini areas =
           Finite (pair_gaps (sort areas) / (real (length areas) * sum_list areas))"
proof -
  have "real (length areas) * sum_list areas \<noteq> 0" using assms by simp
  then show ?thesis
    using wsum_pair_gaps [of "sort areas"]
    by (simp add: calculate_gini_wsum np_divide_def sum_list_sort)
qed

text \<open>
  Claim C6, as amended. For every non-empty array of non-negative areas with a
  positive total, the exact value of the expression that \<open>calculate_gini\<close> evaluates
  (its result with the rounding left out) is finite and lies in \<open>[0, 1]\<close>; it is 0 when
  all areas are equal, and it is 0 for a single area. Of the double that the program
  returns this much holds: it is exactly 0 for a single area, and exactly 0 for the
  areas \<open>[4, 4, 4, 4]\<close>.
\<close>

theorem gini_in_unit_interval:
  assumes "areas \<noteq> []" "\<forall>a\<in>set areas. 0 \<le> a" "0 < sum_list areas"
  shows "\<exists>g. calculate_gini areas = Finite g \<and> 0 \<le> g \<and> g \<le> 1
           \<and> ((\<exists>c. \<forall>a\<in>set areas. a = c) \<longrightarrow> g = 0)
           \<and> (length areas = 1 \<longrightarrow> g = 0)
           \<and> (\<forall>a. areas = [a] \<and> fl a = a \<longrightarrow> calculate_gini_f64 areas = Finite 0)
           \<and> calculate_gini_f64 [4, 4, 4, 4] = Finite 0"
proof -
  let ?n = "real (length areas)"
  let ?num = "pair_gaps (sort areas)"
  let ?den = "?n * sum_list areas"
  have den: "0 < ?den" using assms(1,3) by simp
  have lo: "0 \<le> ?num" by (rule pair_gaps_nonneg) simp
  have "wsum (int (length (sort areas)) + 1) 1 (sort areas)
          \<le> real_of_int (int (length areas)) * sum_list (sort areas)"
    by (rule wsum_upper) (use assms(2) in auto)
  then have hi: "?num \<le> ?den"
    using wsum_pair_gaps [of "sort areas"] by (simp add: sum_list_sort)
  have eq: "(\<exists>c. \<forall>a\<in>set areas. a = c) \<longrightarrow> ?num = 0"
  proof
    assume "\<exists>c. \<forall>a\<in>set areas. a = c"
    then obtain c where "\<forall>a\<in>set (sort areas). a = c" by auto
    then show "?num = 0" by (rule pair_gaps_const)
  qed
  have one: "length areas = 1 \<longrightarrow> ?num = 0"
  proof
    assume "length areas = 1"
    then obtain a where "areas = [a]" by (cases areas) auto
    then show "?num = 0" by simp
  qed
  have "calculate_gini areas = Finite (?num / ?den)"
    using assms(1,3) by (rule gini_value)
  moreover have "0 \<le> ?num / ?den" using lo den by simp
  moreover have "?num / ?den \<le> 1" using hi den by simp
  moreover have "\<forall>a. areas = [a] \<and> fl a = a \<longrightarrow> calculate_gini_f64 areas = Finite 0"
    using assms(3) by (auto intro: gini_f64_single)
  ultimately show ?thesis using eq one gini_f64_4444 by simp
qed

theorem gini_in_unit_interval_witness:
  "[4, 4, 4, 4 :: real] \<noteq> [] \<and> list_all (\<lambda>a. 0 \<le> a) [4, 4, 4, 4 :: real]
     \<and> 0 < sum_list [4, 4, 4, 4 :: real] \<and> calculate_gini [4, 4, 4, 4] = Finite 0
     \<and> calculate_gini_f64 [4, 4, 4, 4] = Finite 0
     \<and> fl 2 = 2 \<and> calculate_gini [2] = Finite 0 \<and> calculate_gini_f64 [2] = Finite 0"
proof -
  have f: "fl 2 = 2" by (simp add: fl_eval)
  show ?thesis
    using gini_in_unit_interval [of "[4, 4, 4, 4]"] gini_in_unit_interval [of "[2]"] f
    by auto
qed

text \<open>
  Claim C6 as stated fails of the double that the program returns: five equal areas
  of 1.3 square metres are non-negative with a positive total, and the result is
  negative, about \<open>-2.73e-17\<close>, neither in \<open>[0, 1]\<close> nor 0.
\<close>

theorem gini_f64_negative_counterexample:
  "fl (13 / 10) = 5854679515581645 / 4503599627370496
     \<and> (0 :: real) < 5854679515581645 / 4503599627370496
     \<and> calculate_gini_f64 [5854679515581645 / 4503599627370496,
                            5854679515581645 / 4503599627370496,
                            5854679515581645 / 4503599627370496,
                            5854679515581645 / 4503599627370496,
                            5854679515581645 / 4503599627370496]
         = Finite (- (277144592453569 / 10141204801825835211973625643008))
     \<and> - (277144592453569 / 10141204801825835211973625643008) < (0 :: real)"
  by (simp add: fl_13_10 gini_f64_five_13)

section \<open>Claims about PV50\<close>

lemma sum_list_take_from_one:
  assumes "k \<le> length xs"
  shows "sum_list (take k xs) = (\<Sum>i = 1..k. xs ! (i - 1))"
proof -
  have "sum_list (take k xs) = (\<Sum>i = 1..length (take k xs). take k xs ! (i - 1))"
    by (rule sum_list_nth_from_one)
  also have "\<dots> = (\<Sum>i = 1..k. take k xs ! (i - 1))"
    using assms by simp
  also have "\<dots> = (\<Sum>i = 1..k. xs ! (i - 1))"
    by (rule sum.cong) auto
  finally show ?thesis .
qed

lemma calculate_pv50_formula: "calculate_pv50 areas = pv50_formula areas"
proof -
  have t: "sum_list (take (length areas div 2) (sort areas))
      = (\<Sum>i = 1..length areas div 2. sort areas ! (i - 1))"
    by (rule sum_list_take_from_one) simp
  have d: "sum_list (sort areas) = (\<Sum>i = 1..length areas. sort areas ! (i - 1))"
    using sum_list_nth_from_one [of "sort areas"] by simp
  show ?thesis
    unfolding calculate_pv50_def pv50_formula_def Let_def length_sort t d ..
qed

lemma pv50_12345: "calculate_pv50 [1, 2, 3, 4, 5] = Finite 20"
  by (simp add: calculate_pv50_def np_divide_def np_scale_def)

lemma pv50_1111: "calculate_pv50 [1, 1, 1, 1] = Finite 50"
  by (simp add: calculate_pv50_def np_divide_def np_scale_def)

text \<open>
  Claim C2. For every non-empty array of areas, \<open>calculate_pv50\<close> sorts the areas
  ascending, takes \<open>half_n = \<lfloor>n/2\<rfloor>\<close> and returns 100 times the sum of the \<open>half_n\<close>
  smallest areas divided by the total; for \<open>[1,2,3,4,5]\<close> it returns 20 and for
  \<open>[1,1,1,1]\<close> it returns 50.
\<close>

theorem pv50_is_smallest_half_share:
  "areas \<noteq> [] \<Longrightarrow>
     calculate_pv50 areas = pv50_formula areas
     \<and> calculate_pv50 [1, 2, 3, 4, 5] = Finite 20
     \<and> calculate_pv50 [1, 1, 1, 1] = Finite 50"
  by (simp add: calculate_pv50_formula [symmetric] pv50_12345 pv50_1111)

theorem pv50_is_smallest_half_share_witness:
  "[5, 1, 4 :: real] \<noteq> [] \<and> calculate_pv50 [5, 1, 4] = pv50_formula [5, 1, 4]
     \<and> pv50_formula [5, 1, 4] = Finite 10"
proof -
  have "pv50_formula [5, 1, 4] = Finite 10" by code_simp
  then show ?thesis using pv50_is_smallest_half_share [of "[5, 1, 4]"] by simp
qed

lemma sum_list_le_bound:
  fixes xs :: "real list"
  shows "(\<forall>x\<in>set xs. x \<le> m) \<Longrightarrow> sum_list xs \<le> real (length xs) * m"
  by (induction xs) (auto simp: algebra_simps)

lemma sum_list_ge_bound:
  fixes xs :: "real list"
  shows "(\<forall>x\<in>set xs. m \<le> x) \<Longrightarrow> real (length xs) * m \<le> sum_list xs"
  by (induction xs) (auto simp: algebra_simps)

lemma sorted_take_le_drop:
  fixes xs :: "real list"
  assumes "sorted xs" "k < length xs" "2 * k \<le> length xs" "0 \<le> xs ! k"
  shows "sum_list (take k xs) \<le> sum_list (drop k xs)"
proof -
  let ?m = "xs ! k"
  have lo: "\<forall>x\<in>set (take k xs). x \<le> ?m"
  proof
    fix x assume "x \<in> set (take k xs)"
    then obtain i where "i < k" "x = xs ! i"
      using assms(2) by (auto simp: in_set_conv_nth)
    then show "x \<le> ?m" using assms(1,2) by (simp add: sorted_nth_mono)
  qed
  have hi: "\<forall>x\<in>set (drop k xs). ?m \<le> x"
  proof
    fix x assume "x \<in> set (drop k xs)"
    then obtain i where "i < length xs - k" "x = xs ! (k + i)"
      by (auto simp: in_set_conv_nth)
    then show "?m \<le> x" using assms(1) by (simp add: sorted_nth_mono)
  qed
  have "sum_list (take k xs) \<le> real k * ?m"
    using sum_list_le_bound [OF lo] assms(2) by simp
  also have "\<dots> \<le> real (length xs - k) * ?m"
    using assms(3,4) by (intro mult_right_mono) auto
  also have "\<dots> \<le> sum_list (drop k xs)"
    using sum_list_ge_bound [OF hi] by simp
  finally show ?thesis .
qed

lemma half_le_total:
  fixes xs :: "real list"
  assumes "sorted xs" "xs \<noteq> []" "\<forall>x\<in>set xs. 0 \<le> x"
  shows "2 * sum_list (take (length xs div 2) xs) \<le> sum_list xs"
proof -
  let ?k = "length xs div 2"
  have k: "?k < length xs" using assms(2) by (cases xs) auto
  have "sum_list (take ?k xs) \<le> sum_list (drop ?k xs)"
    using assms(1) k
  proof (rule sorted_take_le_drop)
    show "2 * ?k \<le> length xs" by simp
    show "0 \<le> xs ! ?k" using assms(3) k by simp
  qed
  moreover have "sum_list xs = sum_list (take ?k xs) + sum_list (drop ?k xs)"
    by (metis append_take_drop_id sum_list_append)
  ultimately show ?thesis by simp
qed

text \<open>
  Claim C10, as amended. For every non-empty array of strictly positive areas, the
  exact value of the expression that \<open>calculate_pv50\<close> evaluates (its result with the
  rounding left out) is finite and at most 50: the \<open>\<lfloor>n/2\<rfloor>\<close> smallest of the sorted
  areas hold at most half of the total.
\<close>

theorem pv50_at_most_50:
  assumes "areas \<noteq> []" "\<forall>a\<in>set areas. 0 < a"
  shows "\<exists>v. calculate_pv50 areas = Finite v \<and> v \<le> 50"
proof -
  let ?s = "sort areas"
  have pos: "0 < sum_list ?s"
  proof -
    have "real (length ?s) * Min (set areas) \<le> sum_list ?s"
      by (rule sum_list_ge_bound) (use assms in auto)
    moreover have "0 < real (length ?s) * Min (set areas)"
      using assms by (intro mult_pos_pos) simp_all
    ultimately show ?thesis by linarith
  qed
  have "2 * sum_list (take (length ?s div 2) ?s) \<le> sum_list ?s"
    by (rule half_le_total) (use assms in \<open>auto simp: less_imp_le sort_eq_Nil\<close>)
  then have "sum_list (take (length ?s div 2) ?s) / sum_list ?s * 100 \<le> 50"
    using pos by (simp add: field_simps)
  then show ?thesis
    using pos by (simp add: calculate_pv50_def np_divide_def np_scale_def Let_def)
qed

theorem pv50_at_most_50_witness:
  "[1, 3 :: real] \<noteq> [] \<and> list_all (\<lambda>a. 0 < a) [1, 3 :: real]
     \<and> (\<exists>v. calculate_pv50 [1, 3] = Finite v \<and> v \<le> 50)
     \<and> calculate_pv50 [1, 3] = Finite 25"
  using pv50_at_most_50 [of "[1, 3]"]
  by (simp add: calculate_pv50_def np_divide_def np_scale_def)

text \<open>
  Claim C10 as stated fails of the double that the program returns: for six equal
  areas of 1.1 square metres the result is above 50, about \<open>50.000000000000014\<close>.
\<close>

theorem pv50_f64_above_50_counterexample:
  "fl (11 / 10) = 2476979795053773 / 2251799813685248
     \<and> (0 :: real) < 2476979795053773 / 2251799813685248
     \<and> calculate_pv50_f64 [2476979795053773 / 2251799813685248,
                            2476979795053773 / 2251799813685248,
                            2476979795053773 / 2251799813685248,
                            2476979795053773 / 2251799813685248,
                            2476979795053773 / 2251799813685248,
                            2476979795053773 / 2251799813685248]
         = Finite (3518437208883201 / 70368744177664)
     \<and> (50 :: real) < 3518437208883201 / 70368744177664"
  by (simp add: fl_11_10 pv50_f64_six_11)

section \<open>Claims about the geometry projector\<close>

lemma set_box: "set (box x0 y0 x1 y1) = {x0, x1} \<times> {y0, y1}"
  by (auto simp: box_def)

lemma min_max_pair: "{min u v, max u v} = {u, v :: real}"
  by (auto simp: min_def max_def)

lemma bounds_box: "bounds (box x0 y0 x1 y1) = (min x0 x1, min y0 y1, max x0 x1, max y0 y1)"
  by (simp add: bounds_def box_def min_def max_def)

lemma area_box: "polygon_area (box x0 y0 x1 y1) = \<bar>x1 - x0\<bar> * \<bar>y1 - y0\<bar>"
proof -
  have "polygon_area (box x0 y0 x1 y1) = \<bar>2 * ((x1 - x0) * (y1 - y0))\<bar> / 2"
    by (simp add: polygon_area_def box_def algebra_simps)
  then show ?thesis by (simp add: abs_mult)
qed

lemma rotate2_four: "rotate 2 [p0, p1, p2, p3] = [p2, p3, p0, p1]"
  by (simp add: rotate_def numeral_2_eq_2)

lemma box_same_ring:
  "\<exists>k. box u1 v2 u2 v1 = rotate k (box (min u1 u2) (min v1 v2) (max u1 u2) (max v1 v2))
     \<or> box u1 v2 u2 v1 = rotate k (rev (box (min u1 u2) (min v1 v2) (max u1 u2) (max v1 v2)))"
proof -
  consider "u1 \<le> u2" "v2 \<le> v1" | "u1 \<le> u2" "v1 < v2"
    | "u2 < u1" "v2 \<le> v1" | "u2 < u1" "v1 < v2"
    by linarith
  then show ?thesis
  proof cases
    case 1
    then have "box u1 v2 u2 v1 = rotate 0 (box (min u1 u2) (min v1 v2) (max u1 u2) (max v1 v2))"
      by (simp add: box_def min_def max_def)
    then show ?thesis by blast
  next
    case 2
    then have "box u1 v2 u2 v1 = rotate 2 (rev (box (min u1 u2) (min v1 v2) (max u1 u2) (max v1 v2)))"
      by (simp add: box_def min_def max_def rotate2_four)
    then show ?thesis by blast
  next
    case 3
    then have "box u1 v2 u2 v1 = rotate 0 (rev (box (min u1 u2) (min v1 v2) (max u1 u2) (max v1 v2)))"
      by (simp add: box_def min_def max_def)
    then show ?thesis by blast
  next
    case 4
    then have "box u1 v2 u2 v1 = rotate 2 (box (min u1 u2) (min v1 v2) (max u1 u2) (max v1 v2))"
      by (simp add: box_def min_def max_def rotate2_four)
    then show ?thesis by blast
  qed
qed

lemma project_box_corners:
  assumes "affine_mul t (x1, y1) = (u1, v1)" "affine_mul t (x2, y2) = (u2, v2)"
  shows "project_box t (x1, y1, x2, y2) = box u1 v2 u2 v1"
  using assms by (simp add: project_box_def)

text \<open>
  Claim C3. For every pixel box and every affine transform, whatever the sign of its
  \<open>y\<close> axis, the projector applies the transform to the two diagonal corners alike, and
  the polygon it builds is the axis-aligned rectangle spanned by the per-axis minima
  and maxima of the two transformed points: it has the four corners, the extent and
  the area of that rectangle, and its ring is the ring of that rectangle up to the
  starting vertex and the direction. (The code hands the transformed coordinates to
  \<open>box\<close> as they come, without comparing them.)
\<close>

theorem projector_rectangle_from_min_max:
  assumes "affine_mul t (x1, y1) = (u1, v1)" "affine_mul t (x2, y2) = (u2, v2)"
  shows "set (project_box t (x1, y1, x2, y2))
           = set (box (min u1 u2) (min v1 v2) (max u1 u2) (max v1 v2))
       \<and> bounds (project_box t (x1, y1, x2, y2))
           = (min u1 u2, min v1 v2, max u1 u2, max v1 v2)
       \<and> polygon_area (project_box t (x1, y1, x2, y2))
           = (max u1 u2 - min u1 u2) * (max v1 v2 - min v1 v2)
       \<and> (\<exists>k. project_box t (x1, y1, x2, y2)
                 = rotate k (box (min u1 u2) (min v1 v2) (max u1 u2) (max v1 v2))
              \<or> project_box t (x1, y1, x2, y2)
                 = rotate k (rev (box (min u1 u2) (min v1 v2) (max u1 u2) (max v1 v2))))"
proof -
  have p: "project_box t (x1, y1, x2, y2) = box u1 v2 u2 v1"
    using assms by (rule project_box_corners)
  have "set (box u1 v2 u2 v1) = set (box (min u1 u2) (min v1 v2) (max u1 u2) (max v1 v2))"
    unfolding set_box min_max_pair by auto
  moreover have "bounds (box u1 v2 u2 v1) = (min u1 u2, min v1 v2, max u1 u2, max v1 v2)"
    by (simp add: bounds_box min.commute max.commute)
  moreover have "polygon_area (box u1 v2 u2 v1)
      = (max u1 u2 - min u1 u2) * (max v1 v2 - min v1 v2)"
    by (simp add: area_box min_def max_def abs_if)
  moreover note box_same_ring [of u1 v2 u2 v1]
  ultimately show ?thesis by (simp only: p)
qed

theorem projector_rectangle_from_min_max_witness:
  "bounds (project_box north_up (0, 0, 10, 10)) = (0, - 10, 10, 0)
     \<and> bounds (project_box identity (0, 0, 10, 10)) = (0, 0, 10, 10)
     \<and> polygon_area (project_box identity (0, 0, 10, 10)) = 100"
proof -
  have n1: "affine_mul north_up (0, 0) = (0, 0)" and n2: "affine_mul north_up (10, 10) = (10, - 10)"
    by (simp_all add: affine_mul_def north_up_def)
  have i1: "affine_mul identity (0, 0) = (0, 0)" and i2: "affine_mul identity (10, 10) = (10, 10)"
    by (simp_all add: affine_mul_def identity_def)
  show ?thesis
    using projector_rectangle_from_min_max [OF n1 n2] projector_rectangle_from_min_max [OF i1 i2]
    by simp
qed

section \<open>Claims about the coverage estimator\<close>

lemma valid_count_zero:
  "(\<forall>line\<in>set img. \<forall>p\<in>set line. \<not> valid_pixel p) \<Longrightarrow> valid_count img = 0"
  by (auto simp: valid_count_def)

text \<open>What holds of the claim: an all-zero array gives 0, and the area is never negative.\<close>

lemma coverage_all_zero:
  assumes "\<forall>line\<in>set img. \<forall>p\<in>set line. p = (0, 0, 0)"
  shows "coverage_estimator img gsd = 0"
proof -
  have "valid_count img = 0"
  proof (rule valid_count_zero, intro ballI)
    fix line p assume "line \<in> set img" "p \<in> set line"
    with assms have "p = (0, 0, 0)" by blast
    then show "\<not> valid_pixel p" by (simp add: valid_pixel_def)
  qed
  then show ?thesis by (simp add: coverage_estimator_def)
qed

lemma coverage_nonneg: "0 \<le> coverage_estimator img gsd"
  by (simp add: coverage_estimator_def)

text \<open>
  Claim C4. A pixel is counted as valid exactly when the sum of its three band values
  is greater than zero, and \<open>total_area_ha\<close> is the count of valid pixels times
  \<open>GSD\<^sup>2 / 10000\<close>. On an 8-bit raster the code adds the bands in 8 bits: the pixel
  \<open>(128, 128, 0)\<close> has band sum 256, the code computes 0 and does not count it, and the
  area of the one-pixel image is 0 instead of \<open>0.05\<^sup>2 / 10000\<close>.
\<close>

theorem coverage_wraps_uint8:
  "\<not> valid_pixel (128, 128, 0 :: 8 word)
     \<and> 0 < unat (128 :: 8 word) + unat (128 :: 8 word) + unat (0 :: 8 word)
     \<and> coverage_estimator [[(128, 128, 0 :: 8 word)]] (1 / 20) = 0
     \<and> real 1 * (1 / 20)\<^sup>2 / 10000 \<noteq> (0 :: real)"
  by (simp add: valid_pixel_def valid_count_def coverage_estimator_def)

section \<open>Claims about the area normalizer\<close>

text \<open>
  Claim C5, as amended. The normalizer has no short-circuit for the empty set: it calls
  the CRS estimation first, whatever the frame. On an empty frame it raises the error
  of the estimation when that fails there, and otherwise returns an empty result, with
  reprojection and area computation run over no rows.
\<close>

theorem normalizer_on_empty:
  "area_normalizer estimate_utm_crs to_crs [] =
     (case estimate_utm_crs [] of
        Inl err \<Rightarrow> ([EstimateUtmCrs], Inl err)
      | Inr utm \<Rightarrow> ([EstimateUtmCrs, ToCrs, GeometryArea, GeometryArea], Inr []))"
  by (simp add: area_normalizer_def split: sum.splits)

theorem normalizer_on_empty_witness:
  "area_normalizer fixed_estimate keep_coordinates [] =
     ([EstimateUtmCrs, ToCrs, GeometryArea, GeometryArea], Inr [])"
  using normalizer_on_empty [of fixed_estimate keep_coordinates]
  by (simp add: fixed_estimate_def)

text \<open>
  Claim C5 as stated fails: on the empty frame the estimation is attempted, and when it
  fails the normalizer raises.
\<close>

theorem normalizer_empty_counterexample:
  "fst (area_normalizer failing_estimate keep_coordinates []) = [EstimateUtmCrs]
     \<and> snd (area_normalizer failing_estimate keep_coordinates []) = Inl EstimateUtmCrsError"
  by (simp add: area_normalizer_def failing_estimate_def)

lemma normalizer_Inr:
  assumes "snd (area_normalizer estimate_utm_crs to_crs gdf) = Inr out"
  shows "\<exists>utm. estimate_utm_crs gdf = Inr utm \<and>
           out = map (\<lambda>r. \<lparr>class_id = class_id r, confidence = confidence r,
                          geometry = map (to_crs utm) (geometry r),
                          area = polygon_area (map (to_crs utm) (geometry r))\<rparr>)
                  (filter (\<lambda>r. polygon_area (map (to_crs utm) (geometry r)) > 1) gdf)"
  using assms
  by (auto simp: area_normalizer_def Let_def filter_map comp_def row.extend_def
      split: sum.splits)

text \<open>
  Claim C7. The area filter drops exactly the detections whose planar area, computed
  after reprojection, is at most 1 square metre; every other detection stays, in
  order, with its class and its confidence unchanged.
\<close>

theorem normalizer_drops_small_areas:
  assumes "estimate_utm_crs gdf = Inr utm"
  shows "snd (area_normalizer estimate_utm_crs to_crs gdf) =
           Inr (map (\<lambda>r. \<lparr>class_id = class_id r, confidence = confidence r,
                          geometry = map (to_crs utm) (geometry r),
                          area = polygon_area (map (to_crs utm) (geometry r))\<rparr>)
                  (filter (\<lambda>r. \<not> polygon_area (map (to_crs utm) (geometry r)) \<le> 1) gdf))"
  using assms
  by (simp add: area_normalizer_def Let_def filter_map comp_def row.extend_def not_le)

theorem normalizer_drops_small_areas_witness:
  "fixed_estimate (vectorize north_up two_boxes) = Inr 32723
     \<and> snd (area_normalizer fixed_estimate keep_coordinates (vectorize north_up two_boxes)) =
         Inr [\<lparr>class_id = 0, confidence = 9 / 10,
               geometry = [(2, - 2), (2, 0), (0, 0), (0, - 2)], area = 4\<rparr>]"
proof -
  have e: "fixed_estimate (vectorize north_up two_boxes) = Inr 32723"
    by (simp add: fixed_estimate_def)
  show ?thesis
    using normalizer_drops_small_areas
      [of fixed_estimate "vectorize north_up two_boxes" 32723 keep_coordinates, OF e]
    by (simp add: fixed_estimate_def vectorize_def two_boxes_def north_up_def project_box_def affine_mul_def
        box_def keep_coordinates_def polygon_area_def)
qed

section \<open>Claims about the metrics record\<close>

lemma main_Inr:
  assumes "main estimate_utm_crs to_crs transform boxes img gsd = Inr (gdf, m)"
  shows "snd (area_normalizer estimate_utm_crs to_crs (vectorize transform boxes)) = Inr gdf"
    and "m = build_metrics gdf (coverage_estimator img gsd)"
  using assms by (auto simp: main_def split: sum.splits)

lemmas run_defs =
  main_def area_normalizer_def vectorize_def fixed_estimate_def keep_coordinates_def
  north_up_def project_box_def affine_mul_def box_def polygon_area_def row.extend_def
  build_metrics_def coverage_estimator_def valid_count_def valid_pixel_def one_white_pixel_def
  std_or_zero_def series_std_def calculate_gini_def calculate_pv50_def np_divide_def
  np_scale_def upto_rec1

lemma run_two_boxes:
  "main fixed_estimate keep_coordinates north_up two_boxes one_white_pixel 100 =
     Inr ([\<lparr>class_id = 0, confidence = 9 / 10,
             geometry = [(2, - 2), (2, 0), (0, 0), (0, - 2)], area = 4\<rparr>],
          \<lparr>total_detections = 1, total_area_ha = 1, detections_per_ha = Finite 1,
            desvio_padrao = Finite 0, gini = Finite 0, pv50 = Finite 0\<rparr>)"
  by (simp add: run_defs two_boxes_def)

lemma run_three_boxes:
  "main fixed_estimate keep_coordinates north_up three_boxes one_white_pixel 100 =
     Inr ([\<lparr>class_id = 0, confidence = 9 / 10,
             geometry = [(2, - 1), (2, 0), (0, 0), (0, - 1)], area = 2\<rparr>,
           \<lparr>class_id = 0, confidence = 4 / 5,
             geometry = [(5, - 5), (5, - 3), (3, - 3), (3, - 5)], area = 4\<rparr>,
           \<lparr>class_id = 0, confidence = 3 / 5,
             geometry = [(9, - 8), (9, - 6), (6, - 6), (6, - 8)], area = 6\<rparr>],
          \<lparr>total_detections = 3, total_area_ha = 1, detections_per_ha = Finite 3,
            desvio_padrao = Finite 2, gini = Finite (2 / 9), pv50 = Finite (50 / 3)\<rparr>)"
  by (simp add: run_defs three_boxes_def)

text \<open>
  Claim C8. \<open>desvio_padrao\<close> is exactly 0 when fewer than 2 detections are left after
  the filter (none included), and otherwise it is the sample standard deviation of
  their areas, with denominator \<open>n - 1\<close>.
\<close>

theorem desvio_padrao_sample_std:
  assumes "main estimate_utm_crs to_crs transform boxes img gsd = Inr (gdf, m)"
  shows "desvio_padrao m =
           (if length gdf < 2 then Finite 0
            else Finite (sqrt ((\<Sum>r\<leftarrow>gdf. (area r - (\<Sum>r\<leftarrow>gdf. area r) / real (length gdf))\<^sup>2)
                                / (real (length gdf) - 1))))"
proof -
  have m: "m = build_metrics gdf (coverage_estimator img gsd)"
    using assms by (rule main_Inr)
  show ?thesis
  proof (cases "length gdf < 2")
    case True
    then show ?thesis by (simp add: m build_metrics_def std_or_zero_def Let_def)
  next
    case False
    then have "real (length gdf - 1) = real (length gdf) - 1" by (simp add: of_nat_diff)
    with False show ?thesis
      by (simp add: m build_metrics_def std_or_zero_def series_std_def Let_def comp_def)
  qed
qed

theorem desvio_padrao_sample_std_witness:
  "(\<exists>gdf m. main fixed_estimate keep_coordinates north_up three_boxes one_white_pixel 100
               = Inr (gdf, m) \<and> map area gdf = [2, 4, 6] \<and> desvio_padrao m = Finite 2)
   \<and> (\<exists>gdf m. main fixed_estimate keep_coordinates north_up two_boxes one_white_pixel 100
               = Inr (gdf, m) \<and> map area gdf = [4] \<and> desvio_padrao m = Finite 0)"
  using desvio_padrao_sample_std [OF run_three_boxes] desvio_padrao_sample_std [OF run_two_boxes]
  by (simp add: run_three_boxes run_two_boxes)

text \<open>
  Claim C9. In the metrics record \<open>total_detections\<close> is the number of detections left
  after the area filter, not the detector's count, and \<open>detections_per_ha\<close> is the
  finite quotient \<open>total_detections / total_area_ha\<close> when \<open>total_area_ha > 0\<close> and
  is 0 when \<open>total_area_ha = 0\<close>: no division by zero takes place, the result is
  neither an infinity nor \<open>nan\<close>.
\<close>

theorem detections_counted_after_filter:
  assumes "main estimate_utm_crs to_crs transform boxes img gsd = Inr (gdf, m)"
  shows "total_detections m = length gdf
     \<and> (\<exists>utm. estimate_utm_crs (vectorize transform boxes) = Inr utm
            \<and> total_detections m =
                length (filter (\<lambda>r. polygon_area (map (to_crs utm) (geometry r)) > 1)
                          (vectorize transform boxes)))
     \<and> total_area_ha m = coverage_estimator img gsd
     \<and> detections_per_ha m =
         (if total_area_ha m > 0 then Finite (real (total_detections m) / total_area_ha m)
          else Finite 0)
     \<and> (total_area_ha m = 0 \<longrightarrow> detections_per_ha m = Finite 0)"
proof -
  have m: "m = build_metrics gdf (coverage_estimator img gsd)"
    and n: "snd (area_normalizer estimate_utm_crs to_crs (vectorize transform boxes)) = Inr gdf"
    using assms by (rule main_Inr)+
  from normalizer_Inr [OF n] obtain utm where
    "estimate_utm_crs (vectorize transform boxes) = Inr utm"
    "length gdf = length (filter (\<lambda>r. polygon_area (map (to_crs utm) (geometry r)) > 1)
                          (vectorize transform boxes))"
    by auto
  then show ?thesis
    by (auto simp: m build_metrics_def Let_def np_divide_def)
qed

theorem detections_counted_after_filter_witness:
  "(\<exists>gdf m. main fixed_estimate keep_coordinates north_up two_boxes one_white_pixel 100
               = Inr (gdf, m) \<and> length two_boxes = 2 \<and> total_detections m = 1
                 \<and> total_area_ha m = 1 \<and> detections_per_ha m = Finite 1)
   \<and> (\<exists>gdf m. main fixed_estimate keep_coordinates north_up two_boxes [[(0, 0, 0 :: 8 word)]] 100
               = Inr (gdf, m) \<and> total_detections m = 1
                 \<and> total_area_ha m = 0 \<and> detections_per_ha m = Finite 0)"
proof -
  have z: "main fixed_estimate keep_coordinates north_up two_boxes [[(0, 0, 0 :: 8 word)]] 100 =
     Inr ([\<lparr>class_id = 0, confidence = 9 / 10,
             geometry = [(2, - 2), (2, 0), (0, 0), (0, - 2)], area = 4\<rparr>],
          \<lparr>total_detections = 1, total_area_ha = 0, detections_per_ha = Finite 0,
            desvio_padrao = Finite 0, gini = Finite 0, pv50 = Finite 0\<rparr>)"
    by (simp add: run_defs two_boxes_def)
  have l: "length two_boxes = 2"
    by (simp add: two_boxes_def)
  show ?thesis
    using detections_counted_after_filter [OF run_two_boxes] detections_counted_after_filter [OF z]
    by (simp add: run_two_boxes z l)
qed

end
